theory Spec2Isabelle
  imports Main
begin

section \<open>The JavaScript runtime the resolver runs on\<close>

text \<open>
  The resolver of \<^verbatim>\<open>cotationsLogger/polymarket_logger.js\<close> is written against three
  services of the runtime: the time value of a \<^verbatim>\<open>Date\<close> (milliseconds since the Unix
  epoch, or NaN for an invalid date), \<^verbatim>\<open>Intl.DateTimeFormat\<close> with
  \<^verbatim>\<open>timeZone: 'America/New_York'\<close>, and the parser of ISO date strings. They are
  modelled here on integers. Instants are \<open>int\<close> milliseconds; the calendar is the
  proleptic Gregorian one of ECMAScript (\<^verbatim>\<open>MakeDay\<close>, \<^verbatim>\<open>YearFromTime\<close>).
\<close>

datatype jsdate = Date int | InvalidDate

text \<open>\<^verbatim>\<open>TimeClip\<close>: a time value beyond 8.64e15 ms is NaN.\<close>

definition timeClip :: "int \<Rightarrow> jsdate" where
  "timeClip t = (if \<bar>t\<bar> \<le> 8640000000000000 then Date t else InvalidDate)"

text \<open>Day number of a civil date (month 1..12) and its inverse.\<close>

definition days_from_civil :: "int \<Rightarrow> int \<Rightarrow> int \<Rightarrow> int" where
  "days_from_civil y m d =
     (let y' = (if m \<le> 2 then y - 1 else y);
          era = y' div 400;
          yoe = y' - era * 400;
          doy = (153 * (if m > 2 then m - 3 else m + 9) + 2) div 5 + d - 1;
          doe = yoe * 365 + yoe div 4 - yoe div 100 + doy
      in era * 146097 + doe - 719468)"

definition civil_from_days :: "int \<Rightarrow> int \<times> int \<times> int" where
  "civil_from_days z =
     (let z' = z + 719468;
          era = z' div 146097;
          doe = z' - era * 146097;
          yoe = (doe - doe div 1460 + doe div 36524 - doe div 146096) div 365;
          doy = doe - (365 * yoe + yoe div 4 - yoe div 100);
          mp = (5 * doy + 2) div 153;
          d = doy - (153 * mp + 2) div 5 + 1;
          m = (if mp < 10 then mp + 3 else mp - 9);
          y = yoe + era * 400
      in (if m \<le> 2 then y + 1 else y, m, d))"

text \<open>
  \<^verbatim>\<open>MakeDay\<close> for a month in 1..12: a day of the month beyond the month's length runs
  into the next month (day 31 of November is December 1).
\<close>

definition makeDay :: "int \<Rightarrow> int \<Rightarrow> int \<Rightarrow> int" where
  "makeDay y mo d = days_from_civil y mo 1 + d - 1"

definition makeTime :: "int \<Rightarrow> int \<Rightarrow> int \<Rightarrow> int" where
  "makeTime h mi s = h * 3600000 + mi * 60000 + s * 1000"

text \<open>\<^verbatim>\<open>new Date(Date.UTC(y, mo - 1, d, h, mi, s, 0))\<close>, the month counted from 1 here.\<close>

definition date_UTC :: "int \<Rightarrow> int \<Rightarrow> int \<Rightarrow> int \<Rightarrow> int \<Rightarrow> int \<Rightarrow> jsdate" where
  "date_UTC y mo d h mi s = timeClip (makeDay y mo d * 86400000 + makeTime h mi s)"

subsection \<open>The reference zone\<close>

text \<open>
  \<^verbatim>\<open>America/New_York\<close> under the rule in force since 2007: daylight time (EDT, UTC-4)
  from the second Sunday of March, 02:00 EST (07:00 UTC), to the first Sunday of November,
  02:00 EDT (06:00 UTC); standard time (EST, UTC-5) otherwise. Day 0 of the day count is a
  Thursday. The zone data of the runtime have other transition dates before 2007; the closed
  evaluations below are at instants of 2025 and 2026, or of the winter of 1969-70.
\<close>

definition weekday :: "int \<Rightarrow> int" where
  "weekday days = (days + 4) mod 7"

definition first_sunday :: "int \<Rightarrow> int \<Rightarrow> int" where
  "first_sunday y mo = (let d1 = days_from_civil y mo 1 in d1 + (7 - weekday d1) mod 7)"

definition dst_start :: "int \<Rightarrow> int" where
  "dst_start y = (first_sunday y 3 + 7) * 86400000 + 7 * 3600000"

definition dst_end :: "int \<Rightarrow> int" where
  "dst_end y = first_sunday y 11 * 86400000 + 6 * 3600000"

definition is_edt :: "int \<Rightarrow> bool" where
  "is_edt t = (let y = fst (civil_from_days (t div 86400000)) in dst_start y \<le> t \<and> t < dst_end y)"

text \<open>
  The offset the source derives from \<^verbatim>\<open>timeZoneName: 'short'\<close>:
  \<^verbatim>\<open>tzName === 'EDT' ? '-04:00' : '-05:00'\<close>, in milliseconds.
\<close>

definition tzOffset :: "int \<Rightarrow> int" where
  "tzOffset t = (if is_edt t then - 14400000 else - 18000000)"

record civil =
  year :: int
  month :: int
  day :: int
  hour :: int
  minute :: int
  second :: int

text \<open>
  \<^verbatim>\<open>etFmt.formatToParts(date)\<close> read back with \<^verbatim>\<open>get(parts, type)\<close>: the civil
  components of an instant in the reference zone. The hour is in 0..23, as ECMA-402
  resolves \<^verbatim>\<open>hour12: false\<close> since its 2023 edition (older engines print midnight
  as 24); the years are those the formatter prints as plain numbers.
\<close>

definition etParts :: "int \<Rightarrow> civil" where
  "etParts t =
     (let lt = t + tzOffset t;
          ymd = civil_from_days (lt div 86400000);
          r = lt mod 86400000
      in \<lparr>year = fst ymd, month = fst (snd ymd), day = snd (snd ymd),
          hour = r div 3600000, minute = (r mod 3600000) div 60000,
          second = (r mod 60000) div 1000\<rparr>)"

text \<open>
  \<^verbatim>\<open>new Date(iso)\<close> for the strings the source builds,
  \<^verbatim>\<open>`${y}-${pad2(mo)}-${pad2(d)}T${pad2(h)}:${pad2(mi)}:${pad2(s)}${offset}`\<close>: the year is
  printed unpadded, so the string is an ISO date only for a four-digit year; the other
  fields must be two digits in the ranges of the format (V8 admits any day 1..31 and hour 24
  only as 24:00:00). The offset \<open>off\<close> is \<open>- 14400000\<close> for \<^verbatim>\<open>-04:00\<close>.
\<close>

definition new_Date_iso :: "int \<Rightarrow> int \<Rightarrow> int \<Rightarrow> int \<Rightarrow> int \<Rightarrow> int \<Rightarrow> int \<Rightarrow> jsdate" where
  "new_Date_iso y mo d h mi s off =
     (if 1000 \<le> y \<and> y \<le> 9999 \<and> 1 \<le> mo \<and> mo \<le> 12 \<and> 1 \<le> d \<and> d \<le> 31
         \<and> 0 \<le> h \<and> (h \<le> 23 \<or> (h = 24 \<and> mi = 0 \<and> s = 0))
         \<and> 0 \<le> mi \<and> mi \<le> 59 \<and> 0 \<le> s \<and> s \<le> 59
      then timeClip (makeDay y mo d * 86400000 + makeTime h mi s - off)
      else InvalidDate)"

text \<open>
  The host: what \<^verbatim>\<open>new Date()\<close> returns, and the zone of the process
  (\<^verbatim>\<open>LocalTZA(t, isUTC)\<close> of ECMAScript), which \<^verbatim>\<open>new Date(y, m, d, h, ...)\<close>,
  \<^verbatim>\<open>getMinutes\<close> and \<^verbatim>\<open>setMinutes\<close> consult.
\<close>

record env =
  clock :: int
  localTZA :: "int \<Rightarrow> bool \<Rightarrow> int"

definition utcHost :: "int \<Rightarrow> env" where
  "utcHost c = \<lparr>clock = c, localTZA = (\<lambda>t isUTC. 0)\<rparr>"

text \<open>\<^verbatim>\<open>new Date(y, mo - 1, d, h, 0, 0, 0)\<close>: a local time of the host.\<close>

definition new_Date_local :: "env \<Rightarrow> int \<Rightarrow> int \<Rightarrow> int \<Rightarrow> int \<Rightarrow> jsdate" where
  "new_Date_local e y mo d h =
     (let t = makeDay y mo d * 86400000 + makeTime h 0 0
      in timeClip (t - localTZA e t False))"


section \<open>Strings and the identifier grammars\<close>

definition is_digit :: "char \<Rightarrow> bool" where
  "is_digit c = (48 \<le> (of_char c :: nat) \<and> (of_char c :: nat) \<le> 57)"

definition is_lower :: "char \<Rightarrow> bool" where
  "is_lower c = (97 \<le> (of_char c :: nat) \<and> (of_char c :: nat) \<le> 122)"

text \<open>\<^verbatim>\<open>parseInt\<close> on a run of decimal digits, as the groups \<^verbatim>\<open>(\d+)\<close> deliver it.\<close>

definition parseInt :: "string \<Rightarrow> int" where
  "parseInt ds = foldl (\<lambda>a c. 10 * a + (int (of_char c) - 48)) 0 ds"

text \<open>A number inside a template literal: \<^verbatim>\<open>`${n}`\<close>.\<close>

definition digit_char :: "int \<Rightarrow> char" where
  "digit_char n = char_of (48 + n)"

function show_digits :: "int \<Rightarrow> string" where
  "show_digits n =
     (if n < 10 then [digit_char n] else show_digits (n div 10) @ [digit_char (n mod 10)])"
  by pat_completeness auto
termination
  by (relation "measure nat") auto

declare show_digits.simps [simp del]

definition show_int :: "int \<Rightarrow> string" where
  "show_int i = (if i < 0 then CHR ''-'' # show_digits (- i) else show_digits i)"

text \<open>
  The regular expressions of the source are sequences of five kinds of item: a literal, a
  captured alternation of literals \<^verbatim>\<open>(a|b)\<close>, \<^verbatim>\<open>([a-z]+)\<close>, \<^verbatim>\<open>(\d+)\<close> and
  \<^verbatim>\<open>(\d{n})\<close>. \<open>match_here\<close> matches a pattern at the head of a string and returns the
  captured groups in order; alternatives are tried left to right with backtracking. The two
  greedy items take the longest run: in every pattern of the source the item that follows
  one begins with a character outside its class (or the pattern ends), so giving characters
  back can never help. \<open>js_match\<close> is \<^verbatim>\<open>slug.match(pattern)\<close>: the leftmost position
  where the pattern matches; the patterns are not anchored.
\<close>

datatype item = Lit string | Alt "string list" | Lower | Digits | DigitsN nat

definition starts_with :: "string \<Rightarrow> string \<Rightarrow> bool" where
  "starts_with l s = (take (length l) s = l)"

fun first_some :: "'a option list \<Rightarrow> 'a option" where
  "first_some [] = None"
| "first_some (None # xs) = first_some xs"
| "first_some (Some x # xs) = Some x"

fun match_here :: "item list \<Rightarrow> string \<Rightarrow> string list option" where
  "match_here [] s = Some []"
| "match_here (Lit l # r) s =
     (if starts_with l s then match_here r (drop (length l) s) else None)"
| "match_here (Alt as # r) s =
     first_some (map (\<lambda>a. if starts_with a s
                            then map_option ((#) a) (match_here r (drop (length a) s))
                            else None) as)"
| "match_here (Lower # r) s =
     (let w = takeWhile is_lower s
      in if w = [] then None else map_option ((#) w) (match_here r (dropWhile is_lower s)))"
| "match_here (Digits # r) s =
     (let w = takeWhile is_digit s
      in if w = [] then None else map_option ((#) w) (match_here r (dropWhile is_digit s)))"
| "match_here (DigitsN n # r) s =
     (let w = take n s
      in if length w = n \<and> list_all is_digit w
         then map_option ((#) w) (match_here r (drop n s)) else None)"

fun js_match :: "item list \<Rightarrow> string \<Rightarrow> string list option" where
  "js_match p [] = match_here p []"
| "js_match p (c # s) =
     (case match_here p (c # s) of Some g \<Rightarrow> Some g | None \<Rightarrow> js_match p s)"

datatype asset = BTC | ETH | SOL | XRP

datatype timeframe = M15 | H1 | Daily

text \<open>\<^verbatim>\<open>asset.toLowerCase()\<close> and \<^verbatim>\<open>fullNames[asset] || shortName\<close>.\<close>

fun shortName :: "asset \<Rightarrow> string" where
  "shortName BTC = ''btc''"
| "shortName ETH = ''eth''"
| "shortName SOL = ''sol''"
| "shortName XRP = ''xrp''"

fun fullName :: "asset \<Rightarrow> string" where
  "fullName BTC = ''bitcoin''"
| "fullName ETH = ''ethereum''"
| "fullName SOL = ''solana''"
| "fullName XRP = ''xrp''"

definition unixPattern :: "asset \<Rightarrow> item list" where
  "unixPattern a =
     [Alt [shortName a, fullName a], Lit ''-updown-'', Alt [''15m'', ''1h'', ''1d''],
      Lit ''-'', Digits]"

definition dailyPattern :: "asset \<Rightarrow> item list" where
  "dailyPattern a =
     [Alt [shortName a, fullName a], Lit ''-up-or-down-on-'', Lower, Lit ''-'', Digits]"

definition h1Pattern :: "asset \<Rightarrow> item list" where
  "h1Pattern a =
     [Alt [shortName a, fullName a], Lit ''-up-or-down-'', Lower, Lit ''-'', Digits,
      Lit ''-'', Digits, Alt [''am'', ''pm''], Lit ''-et'']"

text \<open>The three patterns of the old format, in the order of \<^verbatim>\<open>Object.entries(patterns)\<close>.\<close>

fun legacyPattern :: "timeframe \<Rightarrow> asset \<Rightarrow> item list" where
  "legacyPattern M15 a =
     [Lit (shortName a @ ''-updown-15m-''), DigitsN 4, Lit ''-'', DigitsN 2, Lit ''-'',
      DigitsN 2, Lit ''-'', DigitsN 2, Lit ''-'', DigitsN 2]"
| "legacyPattern H1 a =
     [Lit (shortName a @ ''-updown-1h-''), DigitsN 4, Lit ''-'', DigitsN 2, Lit ''-'',
      DigitsN 2, Lit ''-'', DigitsN 2]"
| "legacyPattern Daily a =
     [Lit (shortName a @ ''-updown-1d-''), DigitsN 4, Lit ''-'', DigitsN 2, Lit ''-'',
      DigitsN 2]"

definition patterns :: "asset \<Rightarrow> (timeframe \<times> item list) list" where
  "patterns a =
     [(M15, legacyPattern M15 a), (H1, legacyPattern H1 a), (Daily, legacyPattern Daily a)]"

definition month_names :: "string list" where
  "month_names =
     [''january'', ''february'', ''march'', ''april'', ''may'', ''june'',
      ''july'', ''august'', ''september'', ''october'', ''november'', ''december'']"

text \<open>
  \<^verbatim>\<open>MONTHS[monthName]\<close> on the object literal of the decoder. A name that is no key
  gives \<^verbatim>\<open>undefined\<close>, except \<^verbatim>\<open>constructor\<close>, the one lower-case member the literal
  inherits from \<^verbatim>\<open>Object.prototype\<close>, which gives a function.
\<close>

datatype jsval = Undefined | Num int | Fn

definition MONTHS :: "string \<Rightarrow> jsval" where
  "MONTHS name =
     (case map_of (zip month_names [1, 2, 3, 4, 5, 6, 7, 8, 9, 10, 11, 12]) name of
        Some n \<Rightarrow> Num n
      | None \<Rightarrow> if name = ''constructor'' then Fn else Undefined)"


section \<open>Decode: \<^verbatim>\<open>parseSlug\<close>\<close>

text \<open>
  A decoded window is \<^verbatim>\<open>{ timeframe, timestamp }\<close>; \<^verbatim>\<open>null\<close> is \<open>None\<close>. The one
  exception the decoder can raise is the \<^verbatim>\<open>RangeError\<close> of \<^verbatim>\<open>formatToParts\<close> on an
  invalid date.
\<close>

record parsed =
  timeframe :: timeframe
  timestamp :: jsdate

datatype error = RangeError

text \<open>
  The branch of the Unix format, \<^verbatim>\<open>btc-updown-15m-1762104600\<close>: the instant named by the
  integer is turned into its civil components in the reference zone, and the returned
  timestamp is rebuilt from them (to the minute) with the offset that a test date made of the
  same components read as UTC has.
\<close>

definition epochBranch :: "string list \<Rightarrow> error + parsed option" where
  "epochBranch g =
     (case g of
        [a, tfMatch, ts] \<Rightarrow>
          (let unixTimestamp = parseInt ts
           in if tfMatch \<noteq> ''15m'' \<and> tfMatch \<noteq> ''1h'' \<and> tfMatch \<noteq> ''1d'' then Inr None
              else
                (let tf = (if tfMatch = ''15m'' then M15 else if tfMatch = ''1h'' then H1 else Daily)
                 in case timeClip (unixTimestamp * 1000) of
                      InvalidDate \<Rightarrow> Inl RangeError
                    | Date timestampUTC \<Rightarrow>
                        (let et = etParts timestampUTC
                         in case date_UTC (year et) (month et) (day et) (hour et) (minute et) 0 of
                              InvalidDate \<Rightarrow> Inl RangeError
                            | Date testDate \<Rightarrow>
                                Inr (Some \<lparr>timeframe = tf,
                                           timestamp = new_Date_iso (year et) (month et) (day et)
                                             (hour et) (minute et) 0 (tzOffset testDate)\<rparr>))))
      | _ \<Rightarrow> Inr None)"

text \<open>
  The year of a text identifier, which names none: next year when the month and day lie
  before today's in the reference zone, this year otherwise.
\<close>

definition inferYear :: "civil \<Rightarrow> int \<Rightarrow> int \<Rightarrow> int" where
  "inferYear now monthNum dayNum =
     (if monthNum < month now \<or> (monthNum = month now \<and> dayNum < day now) then year now + 1
      else if monthNum = month now \<and> dayNum = day now then year now
      else year now)"

text \<open>
  What both text branches do once month, day and hour are known: infer the year from the
  clock, probe the offset at the host-local date of these components, and read the ISO
  string built from them.
\<close>

definition textStart :: "env \<Rightarrow> timeframe \<Rightarrow> int \<Rightarrow> int \<Rightarrow> int \<Rightarrow> error + parsed option" where
  "textStart e tf monthNum dayNum hourNum =
     (let y = inferYear (etParts (clock e)) monthNum dayNum
      in case new_Date_local e y monthNum dayNum hourNum of
           InvalidDate \<Rightarrow> Inl RangeError
         | Date probe \<Rightarrow>
             Inr (Some \<lparr>timeframe = tf,
                        timestamp = new_Date_iso y monthNum dayNum hourNum 0 0 (tzOffset probe)\<rparr>))"

text \<open>The daily format, \<^verbatim>\<open>bitcoin-up-or-down-on-november-3\<close>.\<close>

definition dailyBranch :: "env \<Rightarrow> string list \<Rightarrow> error + parsed option" where
  "dailyBranch e g =
     (case g of
        [a, monthName, ds] \<Rightarrow>
          (case MONTHS monthName of
             Undefined \<Rightarrow> Inr None
           | Fn \<Rightarrow> Inl RangeError
           | Num monthNum \<Rightarrow> textStart e Daily monthNum (parseInt ds) 0)
      | _ \<Rightarrow> Inr None)"

text \<open>The hourly format, \<^verbatim>\<open>xrp-up-or-down-november-4-12pm-et\<close>.\<close>

definition hour24 :: "int \<Rightarrow> string \<Rightarrow> int" where
  "hour24 hourNum ampm =
     (let h = (if ampm = ''pm'' \<and> hourNum < 12 then hourNum + 12 else hourNum)
      in if ampm = ''am'' \<and> h = 12 then 0 else h)"

definition h1Branch :: "env \<Rightarrow> string list \<Rightarrow> error + parsed option" where
  "h1Branch e g =
     (case g of
        [a, monthName, ds, hs, ampm] \<Rightarrow>
          (case MONTHS monthName of
             Undefined \<Rightarrow> Inr None
           | Fn \<Rightarrow> Inl RangeError
           | Num monthNum \<Rightarrow> textStart e H1 monthNum (parseInt ds) (hour24 (parseInt hs) ampm))
      | _ \<Rightarrow> Inr None)"

text \<open>
  The old format, \<^verbatim>\<open>btc-updown-15m-2025-11-02-13-30\<close>: the offset is probed at 12:00 UTC
  of the date, and the duration of the candle is added with \<^verbatim>\<open>setMinutes\<close> or
  \<^verbatim>\<open>setHours\<close>, which work on the local time of the host.
\<close>

definition addLocal :: "env \<Rightarrow> int \<Rightarrow> jsdate \<Rightarrow> jsdate" where
  "addLocal e ms d =
     (case d of
        InvalidDate \<Rightarrow> InvalidDate
      | Date t \<Rightarrow> (let l = t + localTZA e t True + ms in timeClip (l - localTZA e l False)))"

definition legacyStart :: "env \<Rightarrow> timeframe \<Rightarrow> int list \<Rightarrow> error + parsed option" where
  "legacyStart e tf ns =
     (let y = ns ! 0; mo = ns ! 1; d = ns ! 2
      in case new_Date_iso y mo d 12 0 0 0 of
           InvalidDate \<Rightarrow> Inl RangeError
         | Date testDate \<Rightarrow>
             (let off = tzOffset testDate
              in Inr (Some \<lparr>timeframe = tf,
                    timestamp =
                      (case tf of
                         M15 \<Rightarrow> addLocal e 900000 (new_Date_iso y mo d (ns ! 3) (ns ! 4) 0 off)
                       | H1 \<Rightarrow> addLocal e 3600000 (new_Date_iso y mo d (ns ! 3) 0 0 off)
                       | Daily \<Rightarrow> new_Date_iso y mo d 23 59 59 off)\<rparr>)))"

fun legacyLoop :: "env \<Rightarrow> (timeframe \<times> item list) list \<Rightarrow> string \<Rightarrow> error + parsed option" where
  "legacyLoop e [] slug = Inr None"
| "legacyLoop e ((tf, pattern) # ps) slug =
     (case js_match pattern slug of
        Some g \<Rightarrow> legacyStart e tf (map parseInt g)
      | None \<Rightarrow> legacyLoop e ps slug)"

definition legacyBranch :: "env \<Rightarrow> string \<Rightarrow> asset \<Rightarrow> error + parsed option" where
  "legacyBranch e slug a = legacyLoop e (patterns a) slug"

text \<open>\<^verbatim>\<open>parseSlug(slug, asset)\<close> of \<^verbatim>\<open>cotationsLogger/polymarket_logger.js\<close>.\<close>

definition parseSlug :: "env \<Rightarrow> string \<Rightarrow> asset \<Rightarrow> error + parsed option" where
  "parseSlug e slug a =
     (case js_match (unixPattern a) slug of
        Some g \<Rightarrow> epochBranch g
      | None \<Rightarrow>
          (case js_match (dailyPattern a) slug of
             Some g \<Rightarrow> dailyBranch e g
           | None \<Rightarrow>
               (case js_match (h1Pattern a) slug of
                  Some g \<Rightarrow> h1Branch e g
                | None \<Rightarrow> legacyBranch e slug a)))"


text \<open>
  The single-market script (\<^verbatim>\<open>src/unnamed/part_001\<close>) knows the Unix format only, with
  the short asset name, and returns \<^verbatim>\<open>{ timestamp }\<close> with
  \<^verbatim>\<open>new Date(unixTimestamp * 1000)\<close>.
\<close>

definition parseSlug_m15 :: "string \<Rightarrow> asset \<Rightarrow> jsdate option" where
  "parseSlug_m15 slug a =
     (case js_match [Alt [shortName a], Lit ''-updown-'', Alt [''15m'', ''1h'', ''1d''],
                     Lit ''-'', Digits] slug of
        Some g \<Rightarrow> Some (timeClip (parseInt (g ! 2) * 1000))
      | None \<Rightarrow> None)"

subsection \<open>The decoder of \<^verbatim>\<open>cotationsScrapper/polymarket_logger.js\<close>\<close>

text \<open>
  The older generation reads the Unix format directly,
  \<^verbatim>\<open>new Date(unixTimestamp * 1000)\<close>, and raises nothing there.
\<close>

definition epochBranch_scrapper :: "string list \<Rightarrow> error + parsed option" where
  "epochBranch_scrapper g =
     (case g of
        [a, tfMatch, ts] \<Rightarrow>
          (let unixTimestamp = parseInt ts
           in if tfMatch \<noteq> ''15m'' \<and> tfMatch \<noteq> ''1h'' \<and> tfMatch \<noteq> ''1d'' then Inr None
              else Inr (Some \<lparr>timeframe = (if tfMatch = ''15m'' then M15
                                             else if tfMatch = ''1h'' then H1 else Daily),
                               timestamp = timeClip (unixTimestamp * 1000)\<rparr>))
      | _ \<Rightarrow> Inr None)"

text \<open>
  Its year test works on \<^verbatim>\<open>now.toLocaleString('en-US', { timeZone: 'America/New_York' })\<close>,
  which prints \<^verbatim>\<open>11/3/2025, 9:30:00 AM\<close>: the hour its pattern captures is the one of
  the 12-hour clock. The candidate \<^verbatim>\<open>new Date(year, monthNum - 1, dayNum, hourNum, 0, 0, 0)\<close>
  and \<^verbatim>\<open>nowET = new Date(y, mo - 1, d, h, mi, s)\<close> are local times of the host, and
  \<^verbatim>\<open>candidateET < nowET\<close> compares their time values (false when one is NaN).
\<close>

definition hour12 :: "int \<Rightarrow> int" where
  "hour12 h = (if h mod 12 = 0 then 12 else h mod 12)"

definition new_Date_local6 :: "env \<Rightarrow> int \<Rightarrow> int \<Rightarrow> int \<Rightarrow> int \<Rightarrow> int \<Rightarrow> int \<Rightarrow> jsdate" where
  "new_Date_local6 e y mo d h mi s =
     (let t = makeDay y mo d * 86400000 + makeTime h mi s
      in timeClip (t - localTZA e t False))"

definition date_less :: "jsdate \<Rightarrow> jsdate \<Rightarrow> bool" where
  "date_less x y =
     (case x of
        InvalidDate \<Rightarrow> False
      | Date a \<Rightarrow> (case y of InvalidDate \<Rightarrow> False | Date b \<Rightarrow> a < b))"

definition inferYear_scrapper :: "env \<Rightarrow> int \<Rightarrow> int \<Rightarrow> int \<Rightarrow> int" where
  "inferYear_scrapper e monthNum dayNum hourNum =
     (let now = etParts (clock e);
          y = year now;
          candidateET = new_Date_local e y monthNum dayNum hourNum;
          nowET = new_Date_local6 e y (month now) (day now) (hour12 (hour now)) (minute now)
                    (second now)
      in if date_less candidateET nowET then y + 1 else y)"

definition textStart_scrapper ::
  "env \<Rightarrow> timeframe \<Rightarrow> int \<Rightarrow> int \<Rightarrow> int \<Rightarrow> error + parsed option" where
  "textStart_scrapper e tf monthNum dayNum hourNum =
     (let y = inferYear_scrapper e monthNum dayNum hourNum
      in case new_Date_local e y monthNum dayNum hourNum of
           InvalidDate \<Rightarrow> Inl RangeError
         | Date probe \<Rightarrow>
             Inr (Some \<lparr>timeframe = tf,
                        timestamp = new_Date_iso y monthNum dayNum hourNum 0 0 (tzOffset probe)\<rparr>))"

definition dailyBranch_scrapper :: "env \<Rightarrow> string list \<Rightarrow> error + parsed option" where
  "dailyBranch_scrapper e g =
     (case g of
        [a, monthName, ds] \<Rightarrow>
          (case MONTHS monthName of
             Undefined \<Rightarrow> Inr None
           | Fn \<Rightarrow> Inl RangeError
           | Num monthNum \<Rightarrow> textStart_scrapper e Daily monthNum (parseInt ds) 0)
      | _ \<Rightarrow> Inr None)"

definition h1Branch_scrapper :: "env \<Rightarrow> string list \<Rightarrow> error + parsed option" where
  "h1Branch_scrapper e g =
     (case g of
        [a, monthName, ds, hs, ampm] \<Rightarrow>
          (case MONTHS monthName of
             Undefined \<Rightarrow> Inr None
           | Fn \<Rightarrow> Inl RangeError
           | Num monthNum \<Rightarrow>
               textStart_scrapper e H1 monthNum (parseInt ds) (hour24 (parseInt hs) ampm))
      | _ \<Rightarrow> Inr None)"

text \<open>
  \<^verbatim>\<open>parseSlug(slug, asset)\<close> of \<^verbatim>\<open>cotationsScrapper/polymarket_logger.js\<close>: the
  same patterns in the same order, and the same code for the old format.
\<close>

definition parseSlug_scrapper :: "env \<Rightarrow> string \<Rightarrow> asset \<Rightarrow> error + parsed option" where
  "parseSlug_scrapper e slug a =
     (case js_match (unixPattern a) slug of
        Some g \<Rightarrow> epochBranch_scrapper g
      | None \<Rightarrow>
          (case js_match (dailyPattern a) slug of
             Some g \<Rightarrow> dailyBranch_scrapper e g
           | None \<Rightarrow>
               (case js_match (h1Pattern a) slug of
                  Some g \<Rightarrow> h1Branch_scrapper e g
                | None \<Rightarrow> legacyBranch e slug a)))"


section \<open>Encode: \<^verbatim>\<open>generateExpectedSlug\<close>\<close>

text \<open>\<^verbatim>\<open>MONTHS[targetMo - 1]\<close> inside a template literal.\<close>

definition monthName :: "int \<Rightarrow> string" where
  "monthName mo = (if 1 \<le> mo \<and> mo \<le> 12 then month_names ! nat (mo - 1) else ''undefined'')"

text \<open>\<^verbatim>\<open>Math.floor(dateET.getTime() / 1000)\<close> inside a template literal.\<close>

definition unixTs :: "jsdate \<Rightarrow> string" where
  "unixTs d = (case d of InvalidDate \<Rightarrow> ''NaN'' | Date t \<Rightarrow> show_int (t div 1000))"

definition generateExpectedSlug :: "asset \<Rightarrow> timeframe \<Rightarrow> int \<Rightarrow> error + string" where
  "generateExpectedSlug a tf now =
     (let n = etParts now;
          targetY = year n; targetMo = month n
      in case tf of
           M15 \<Rightarrow>
             (let targetD = day n; targetH = hour n; targetMi = (minute n div 15) * 15
              in case date_UTC targetY targetMo targetD targetH targetMi 0 of
                   InvalidDate \<Rightarrow> Inl RangeError
                 | Date testDate \<Rightarrow>
                     Inr (shortName a @ ''-updown-15m-''
                          @ unixTs (new_Date_iso targetY targetMo targetD targetH targetMi 0
                                      (tzOffset testDate))))
         | H1 \<Rightarrow>
             (let targetD = day n; targetH = hour n;
                  hour12 = (if targetH = 0 then 12 else if targetH > 12 then targetH - 12 else targetH);
                  ampm = (if targetH < 12 then ''am'' else ''pm'')
              in Inr (fullName a @ ''-up-or-down-'' @ monthName targetMo @ ''-'' @ show_int targetD
                      @ ''-'' @ show_int hour12 @ ampm @ ''-et''))
         | Daily \<Rightarrow>
             (let targetD = (if hour n \<ge> 12 then day n + 1 else day n)
              in Inr (fullName a @ ''-up-or-down-on-'' @ monthName targetMo @ ''-''
                      @ show_int targetD)))"

section \<open>Containment: \<^verbatim>\<open>isActiveMarket\<close>\<close>

text \<open>
  \<^verbatim>\<open>new Date(nowY, nowMo, 0).getDate()\<close>: the last day of month \<open>nowMo\<close>, read in the same
  host zone it was built in.
\<close>

definition daysInMonth :: "int \<Rightarrow> int \<Rightarrow> int" where
  "daysInMonth y mo =
     snd (snd (civil_from_days
       (days_from_civil (if mo = 12 then y + 1 else y) (if mo = 12 then 1 else mo + 1) 1 - 1)))"

text \<open>
  The result is the pair \<^verbatim>\<open>[matches, parsed.timestamp]\<close>, or \<^verbatim>\<open>[false, null]\<close>. The
  asset only labels the debug output.
\<close>

definition isActiveMarket ::
  "parsed option \<Rightarrow> asset \<Rightarrow> timeframe \<Rightarrow> int \<Rightarrow> error + (bool \<times> jsdate option)" where
  "isActiveMarket p a tf now =
     (case p of
        None \<Rightarrow> Inr (False, None)
      | Some pd \<Rightarrow>
          (case timestamp pd of
             InvalidDate \<Rightarrow> Inl RangeError
           | Date ts \<Rightarrow>
               (let n = etParts now; m = etParts ts;
                    matches =
                      (case tf of
                         M15 \<Rightarrow> year n = year m \<and> month n = month m \<and> day n = day m
                                \<and> hour n = hour m \<and> minute n \<ge> minute m \<and> minute n < minute m + 15
                       | H1 \<Rightarrow> year n = year m \<and> month n = month m \<and> day n = day m
                               \<and> hour n = hour m
                       | Daily \<Rightarrow>
                           (let expectedD =
                                  (if hour n \<ge> 12
                                   then (if day n + 1 > daysInMonth (year n) (month n) then 1
                                         else day n + 1)
                                   else day n)
                            in year n = year m \<and> month n = month m \<and> expectedD = day m))
                in Inr (matches, Some (Date ts)))))"


text \<open>
  Both operations are declared with \<^verbatim>\<open>now = new Date()\<close>: a call that leaves the
  instant out reads the clock, a call that passes it does not.
\<close>

definition generateExpectedSlug_at ::
  "env \<Rightarrow> asset \<Rightarrow> timeframe \<Rightarrow> int option \<Rightarrow> error + string" where
  "generateExpectedSlug_at e a tf now =
     generateExpectedSlug a tf (case now of None \<Rightarrow> clock e | Some n \<Rightarrow> n)"

definition isActiveMarket_at ::
  "env \<Rightarrow> parsed option \<Rightarrow> asset \<Rightarrow> timeframe \<Rightarrow> int option
     \<Rightarrow> error + (bool \<times> jsdate option)" where
  "isActiveMarket_at e p a tf now =
     isActiveMarket p a tf (case now of None \<Rightarrow> clock e | Some n \<Rightarrow> n)"

section \<open>Facts about the matcher\<close>

lemma starts_with_iff: "starts_with l s \<longleftrightarrow> (\<exists>u. s = l @ u)"
  unfolding starts_with_def
  by (metis append_eq_conv_conj append_take_drop_id)

text \<open>
  An identifier of the old format begins, where its pattern matches, with the asset, a
  cadence tag and a digit; so the pattern of the Unix format matches at the same place.
\<close>

lemma legacy_head:
  assumes "match_here (Lit L # DigitsN 4 # r) t = Some g"
  shows "\<exists>d u. t = L @ d # u \<and> is_digit d"
proof -
  from assms have sw: "starts_with L t"
    by (simp split: if_splits)
  then obtain u0 where t: "t = L @ u0"
    by (auto simp: starts_with_iff)
  from assms sw t have "length (take 4 u0) = 4 \<and> list_all is_digit (take 4 u0)"
    by (simp add: Let_def split: if_splits)
  then obtain d u where "u0 = d # u" "is_digit d"
    by (cases u0) auto
  with t show ?thesis by blast
qed

lemma unix_matches_tagged:
  assumes "is_digit d" and "tag \<in> {''15m'', ''1h'', ''1d''}"
  shows "match_here (unixPattern a) (shortName a @ ''-updown-'' @ tag @ ''-'' @ d # u) \<noteq> None"
  using assms by (cases a) (auto simp: unixPattern_def starts_with_def Let_def)

lemma legacy_implies_unix:
  assumes "(tf, pat) \<in> set (patterns a)" and "match_here pat t = Some g"
  shows "match_here (unixPattern a) t \<noteq> None"
proof -
  from assms(1) consider
      "pat = Lit (shortName a @ ''-updown-15m-'') # DigitsN 4 # tl (tl pat)"
    | "pat = Lit (shortName a @ ''-updown-1h-'') # DigitsN 4 # tl (tl pat)"
    | "pat = Lit (shortName a @ ''-updown-1d-'') # DigitsN 4 # tl (tl pat)"
    by (auto simp: patterns_def)
  then show ?thesis
  proof cases
    case 1
    with assms(2) obtain d u where "t = (shortName a @ ''-updown-15m-'') @ d # u" "is_digit d"
      using legacy_head by metis
    then show ?thesis using unix_matches_tagged [of d "''15m''" a u] by simp
  next
    case 2
    with assms(2) obtain d u where "t = (shortName a @ ''-updown-1h-'') @ d # u" "is_digit d"
      using legacy_head by metis
    then show ?thesis using unix_matches_tagged [of d "''1h''" a u] by simp
  next
    case 3
    with assms(2) obtain d u where "t = (shortName a @ ''-updown-1d-'') @ d # u" "is_digit d"
      using legacy_head by metis
    then show ?thesis using unix_matches_tagged [of d "''1d''" a u] by simp
  qed
qed

text \<open>\<open>js_match\<close> succeeds exactly when the pattern matches at some position.\<close>

lemma js_match_suffix: "match_here p (drop k s) \<noteq> None \<Longrightarrow> js_match p s \<noteq> None"
proof (induction s arbitrary: k)
  case Nil
  then show ?case by simp
next
  case (Cons c s)
  show ?case
  proof (cases k)
    case 0
    with Cons.prems show ?thesis by (auto split: option.splits)
  next
    case (Suc j)
    with Cons.prems have "match_here p (drop j s) \<noteq> None" by simp
    then have "js_match p s \<noteq> None" by (rule Cons.IH)
    then show ?thesis by (auto split: option.splits)
  qed
qed

lemma js_match_Some_suffix: "js_match p s = Some g \<Longrightarrow> \<exists>k. match_here p (drop k s) = Some g"
proof (induction s)
  case Nil
  then show ?case by simp
next
  case (Cons c s)
  show ?case
  proof (cases "match_here p (c # s)")
    case None
    with Cons.prems have "js_match p s = Some g" by simp
    then obtain k where "match_here p (drop k s) = Some g" using Cons.IH by blast
    then have "match_here p (drop (Suc k) (c # s)) = Some g" by simp
    then show ?thesis by blast
  next
    case (Some g')
    with Cons.prems have "g' = g" by simp
    with Some have "match_here p (drop 0 (c # s)) = Some g" by simp
    then show ?thesis by blast
  qed
qed

lemma legacy_shadowed:
  assumes "(tf, pat) \<in> set (patterns a)" and "js_match pat slug = Some g"
  shows "js_match (unixPattern a) slug \<noteq> None"
proof -
  from assms(2) obtain k where "match_here pat (drop k slug) = Some g"
    using js_match_Some_suffix by blast
  with assms(1) have "match_here (unixPattern a) (drop k slug) \<noteq> None"
    by (rule legacy_implies_unix)
  then show ?thesis by (rule js_match_suffix)
qed

section \<open>What the decoder reads of the host\<close>

lemma new_Date_local_host:
  "localTZA e1 = localTZA e2 \<Longrightarrow> new_Date_local e1 y mo d h = new_Date_local e2 y mo d h"
  by (simp add: new_Date_local_def)

lemma textStart_host:
  assumes "localTZA e1 = localTZA e2"
    and "year (etParts (clock e1)) = year (etParts (clock e2))"
    and "month (etParts (clock e1)) = month (etParts (clock e2))"
    and "day (etParts (clock e1)) = day (etParts (clock e2))"
  shows "textStart e1 tf mo d h = textStart e2 tf mo d h"
proof -
  have "inferYear (etParts (clock e1)) mo d = inferYear (etParts (clock e2)) mo d"
    using assms(2-4) by (simp add: inferYear_def)
  then show ?thesis
    using new_Date_local_host [OF assms(1)] by (simp add: textStart_def)
qed

lemma addLocal_host:
  "localTZA e1 = localTZA e2 \<Longrightarrow> addLocal e1 ms d = addLocal e2 ms d"
  by (cases d) (simp_all add: addLocal_def)

lemma legacyStart_host:
  assumes "localTZA e1 = localTZA e2"
  shows "legacyStart e1 tf ns = legacyStart e2 tf ns"
proof -
  have eq: "addLocal e1 = addLocal e2"
    using addLocal_host [OF assms] by (intro ext)
  show ?thesis
    unfolding legacyStart_def eq by (rule refl)
qed

lemma legacyLoop_host:
  "localTZA e1 = localTZA e2 \<Longrightarrow> legacyLoop e1 ps slug = legacyLoop e2 ps slug"
proof (induction e1 ps slug rule: legacyLoop.induct)
  case (1 e slug)
  show ?case by simp
next
  case (2 e tf pattern ps slug)
  show ?case
  proof (cases "js_match pattern slug")
    case None
    with 2 show ?thesis by simp
  next
    case (Some g)
    then show ?thesis using legacyStart_host [OF "2.prems"] by simp
  qed
qed


section \<open>Alignment of civil components\<close>






section \<open>Printing and reading the Unix payload\<close>













section \<open>Decoding what the encoder produced\<close>








section \<open>Decoding the text formats\<close>



section \<open>Civil midnight and the text formats of both decoders\<close>






section \<open>The older decoder on the encoder's identifiers and on the host\<close>






lemma textStart_scrapper_host:
  assumes "localTZA e1 = localTZA e2" and "etParts (clock e1) = etParts (clock e2)"
  shows "textStart_scrapper e1 tf mo d h = textStart_scrapper e2 tf mo d h"
proof -
  have l: "new_Date_local e1 = new_Date_local e2"
    using assms(1) by (intro ext) (simp add: new_Date_local_def)
  have l6: "new_Date_local6 e1 = new_Date_local6 e2"
    using assms(1) by (intro ext) (simp add: new_Date_local6_def)
  have "inferYear_scrapper e1 mo d h = inferYear_scrapper e2 mo d h"
    unfolding inferYear_scrapper_def l l6 assms(2) by (rule refl)
  then show ?thesis
    unfolding textStart_scrapper_def l by simp
qed

lemma parseSlug_same_civil_date:
  assumes host: "localTZA e1 = localTZA e2"
    and y: "year (etParts (clock e1)) = year (etParts (clock e2))"
    and m: "month (etParts (clock e1)) = month (etParts (clock e2))"
    and d: "day (etParts (clock e1)) = day (etParts (clock e2))"
  shows "parseSlug e1 slug a = parseSlug e2 slug a"
proof -
  note ts = textStart_host [OF host y m d]
  have "dailyBranch e1 g = dailyBranch e2 g" for g
    by (simp add: dailyBranch_def ts split: list.splits jsval.splits)
  moreover have "h1Branch e1 g = h1Branch e2 g" for g
    by (simp add: h1Branch_def ts split: list.splits jsval.splits)
  moreover have "legacyBranch e1 slug a = legacyBranch e2 slug a"
    by (simp add: legacyBranch_def legacyLoop_host [OF host])
  ultimately show ?thesis
    by (simp add: parseSlug_def split: option.splits)
qed

lemma parseSlug_scrapper_same_reading:
  assumes host: "localTZA e1 = localTZA e2"
    and now: "etParts (clock e1) = etParts (clock e2)"
  shows "parseSlug_scrapper e1 slug a = parseSlug_scrapper e2 slug a"
proof -
  note ts = textStart_scrapper_host [OF host now]
  have "dailyBranch_scrapper e1 g = dailyBranch_scrapper e2 g" for g
    by (simp add: dailyBranch_scrapper_def ts split: list.splits jsval.splits)
  moreover have "h1Branch_scrapper e1 g = h1Branch_scrapper e2 g" for g
    by (simp add: h1Branch_scrapper_def ts split: list.splits jsval.splits)
  moreover have "legacyBranch e1 slug a = legacyBranch e2 slug a"
    by (simp add: legacyBranch_def legacyLoop_host [OF host])
  ultimately show ?thesis
    by (simp add: parseSlug_scrapper_def split: option.splits)
qed

section \<open>The claims\<close>

text \<open>
  C10. For every asset, cadence and instant, the containment check on an absent (null)
  decoded descriptor returns the pair [false, null] and raises nothing.
\<close>

theorem isActiveMarket_null: "isActiveMarket None a tf now = Inr (False, None)"
  by (simp add: isActiveMarket_def)

text \<open>
  C1. Round trip: decoding the identifier the encoder produces for (asset, cadence, now)
  gives a start that is now truncated to the bucket, and containment of now in it holds.
  The code at 2025-03-09T07:10:00Z (03:10 EDT, an hour after the spring-forward
  transition), asset BTC, cadence m15: the encoder reads the floored civil time 03:00 at the
  winter offset, so the identifier names 08:00 UTC (04:00 EDT); the decoder reads 04:00
  again at the winter offset and returns 09:00 UTC (05:00 EDT); containment is false.
\<close>

theorem round_trip_spring_forward:
  "etParts 1741504200000
     = \<lparr>year = 2025, month = 3, day = 9, hour = 3, minute = 10, second = 0\<rparr>
   \<and> generateExpectedSlug BTC M15 1741504200000 = Inr ''btc-updown-15m-1741507200''
   \<and> parseSlug e ''btc-updown-15m-1741507200'' BTC
       = Inr (Some \<lparr>timeframe = M15, timestamp = Date 1741510800000\<rparr>)
   \<and> etParts 1741510800000
       = \<lparr>year = 2025, month = 3, day = 9, hour = 5, minute = 0, second = 0\<rparr>
   \<and> isActiveMarket (Some \<lparr>timeframe = M15, timestamp = Date 1741510800000\<rparr>) BTC M15
         1741504200000
       = Inr (False, Some (Date 1741510800000))"
  by (intro conjI; code_simp)

text \<open>
  C2. Daily rollover: before civil 12:00 the identifier carries today's date, from 12:00 on
  tomorrow's, carried into the next month and year; containment follows the same rule.
  The code at 2025-11-30T17:00:00Z (12:00 EST), asset BTC: the encoder labels the window
  november-31, and containment rejects the window of December 1 at that instant; at
  2025-12-31T17:00:00Z the label is december-32.
\<close>

theorem daily_rollover_month_end:
  "etParts 1764522000000
     = \<lparr>year = 2025, month = 11, day = 30, hour = 12, minute = 0, second = 0\<rparr>
   \<and> generateExpectedSlug BTC Daily 1764522000000 = Inr ''bitcoin-up-or-down-on-november-31''
   \<and> etParts 1764565200000
       = \<lparr>year = 2025, month = 12, day = 1, hour = 0, minute = 0, second = 0\<rparr>
   \<and> isActiveMarket (Some \<lparr>timeframe = Daily, timestamp = Date 1764565200000\<rparr>) BTC Daily
         1764522000000
       = Inr (False, Some (Date 1764565200000))
   \<and> etParts 1767200400000
       = \<lparr>year = 2025, month = 12, day = 31, hour = 12, minute = 0, second = 0\<rparr>
   \<and> generateExpectedSlug BTC Daily 1767200400000 = Inr ''bitcoin-up-or-down-on-december-32''"
  by (intro conjI; code_simp)

text \<open>
  C3. For m15 the encoder floors the civil minute to a multiple of 15 and the identifier
  embeds the absolute instant of that floored civil time. The code at
  2025-03-09T07:10:00Z (03:10 EDT): the minute is floored to 03:00, but the embedded integer
  1741507200 is the instant whose civil time is 04:00.
\<close>

theorem m15_floor_spring_forward:
  "etParts 1741504200000
     = \<lparr>year = 2025, month = 3, day = 9, hour = 3, minute = 10, second = 0\<rparr>
   \<and> generateExpectedSlug BTC M15 1741504200000 = Inr ''btc-updown-15m-1741507200''
   \<and> etParts (1741507200 * 1000)
       = \<lparr>year = 2025, month = 3, day = 9, hour = 4, minute = 0, second = 0\<rparr>"
  by (intro conjI; code_simp)

text \<open>
  C4. Decoding an identifier of the Unix format returns exactly the instant
  \<open>unixSeconds * 1000\<close>, the same on both sides of a daylight-saving transition. The code
  on \<^verbatim>\<open>btc-updown-15m-1741507200\<close> (2025-03-09T08:00:00Z): the decoder of
  \<^verbatim>\<open>cotationsLogger\<close> returns 1741510800000, an hour later, where the single-market
  script returns 1741507200000; and it drops the seconds of 1762104601.
\<close>

theorem epoch_decode_spring_forward:
  "parseSlug e ''btc-updown-15m-1741507200'' BTC
     = Inr (Some \<lparr>timeframe = M15, timestamp = Date 1741510800000\<rparr>)
   \<and> parseSlug_m15 ''btc-updown-15m-1741507200'' BTC = Some (Date 1741507200000)
   \<and> parseSlug e ''btc-updown-15m-1762104601'' BTC
       = Inr (Some \<lparr>timeframe = M15, timestamp = Date 1762104600000\<rparr>)"
  by (intro conjI; code_simp)

text \<open>
  C8. Decode tries the grammars in the order Unix, daily text, hourly text, old numeric
  format, and the first that matches decides; an identifier that matches the old numeric
  format also matches the Unix format, and its result is that of the Unix format.
\<close>

theorem grammar_priority:
  "(js_match (unixPattern a) slug = Some g \<longrightarrow> parseSlug e slug a = epochBranch g)
   \<and> (js_match (unixPattern a) slug = None \<and> js_match (dailyPattern a) slug = Some g
        \<longrightarrow> parseSlug e slug a = dailyBranch e g)
   \<and> (js_match (unixPattern a) slug = None \<and> js_match (dailyPattern a) slug = None
        \<and> js_match (h1Pattern a) slug = Some g \<longrightarrow> parseSlug e slug a = h1Branch e g)
   \<and> (js_match (unixPattern a) slug = None \<and> js_match (dailyPattern a) slug = None
        \<and> js_match (h1Pattern a) slug = None \<longrightarrow> parseSlug e slug a = legacyBranch e slug a)
   \<and> ((tf, pat) \<in> set (patterns a) \<and> js_match pat slug = Some g'
        \<longrightarrow> (\<exists>gu. js_match (unixPattern a) slug = Some gu \<and> parseSlug e slug a = epochBranch gu))"
proof -
  have "\<exists>gu. js_match (unixPattern a) slug = Some gu \<and> parseSlug e slug a = epochBranch gu"
    if "(tf, pat) \<in> set (patterns a)" and "js_match pat slug = Some g'"
  proof -
    from that obtain gu where "js_match (unixPattern a) slug = Some gu"
      using legacy_shadowed by blast
    then show ?thesis by (simp add: parseSlug_def)
  qed
  then show ?thesis by (simp add: parseSlug_def)
qed

theorem grammar_priority_witness:
  "parseSlug (utcHost 0) ''btc-updown-15m-2025-11-02-13-30'' BTC
     = epochBranch [''btc'', ''15m'', ''2025'']
   \<and> parseSlug (utcHost 1762300000000) ''bitcoin-up-or-down-on-november-3'' BTC
     = dailyBranch (utcHost 1762300000000) [''bitcoin'', ''november'', ''3'']
   \<and> parseSlug (utcHost 1762300000000) ''xrp-up-or-down-november-4-12pm-et'' XRP
     = h1Branch (utcHost 1762300000000) [''xrp'', ''november'', ''4'', ''12'', ''pm'']
   \<and> parseSlug (utcHost 0) ''will-it-rain-tomorrow'' BTC
     = legacyBranch (utcHost 0) ''will-it-rain-tomorrow'' BTC
   \<and> (\<exists>gu. js_match (unixPattern BTC) ''btc-updown-15m-2025-11-02-13-30'' = Some gu
          \<and> parseSlug (utcHost 0) ''btc-updown-15m-2025-11-02-13-30'' BTC = epochBranch gu)"
proof -
  let ?L = "''btc-updown-15m-2025-11-02-13-30''"
  let ?D = "''bitcoin-up-or-down-on-november-3''"
  let ?H = "''xrp-up-or-down-november-4-12pm-et''"
  let ?N = "''will-it-rain-tomorrow''"
  have u: "js_match (unixPattern BTC) ?L = Some [''btc'', ''15m'', ''2025'']"
    by code_simp
  have d: "js_match (unixPattern BTC) ?D = None
           \<and> js_match (dailyPattern BTC) ?D = Some [''bitcoin'', ''november'', ''3'']"
    by (intro conjI; code_simp)
  have h: "js_match (unixPattern XRP) ?H = None \<and> js_match (dailyPattern XRP) ?H = None
           \<and> js_match (h1Pattern XRP) ?H = Some [''xrp'', ''november'', ''4'', ''12'', ''pm'']"
    by (intro conjI; code_simp)
  have n: "js_match (unixPattern BTC) ?N = None \<and> js_match (dailyPattern BTC) ?N = None
           \<and> js_match (h1Pattern BTC) ?N = None"
    by (intro conjI; code_simp)
  have l1: "(M15, legacyPattern M15 BTC) \<in> set (patterns BTC)"
    by (simp add: patterns_def)
  have l2: "js_match (legacyPattern M15 BTC) ?L = Some [''2025'', ''11'', ''02'', ''13'', ''30'']"
    by code_simp
  note l = conjI [OF l1 l2]
  note c1 = grammar_priority [THEN conjunct1, THEN mp, OF u]
  note c2 = grammar_priority [THEN conjunct2, THEN conjunct1, THEN mp, OF d]
  note c3 = grammar_priority [THEN conjunct2, THEN conjunct2, THEN conjunct1, THEN mp, OF h]
  note c4 = grammar_priority [THEN conjunct2, THEN conjunct2, THEN conjunct2, THEN conjunct1,
                              THEN mp, OF n]
  note c5 = grammar_priority [THEN conjunct2, THEN conjunct2, THEN conjunct2, THEN conjunct2,
                              THEN mp, OF l]
  show ?thesis
    by (intro conjI) (rule c1, rule c2, rule c3, rule c4, rule c5)
qed

text \<open>
  C5. An identifier of the daily or hourly text format names no year; decode takes next
  year when its (month, day) is strictly earlier than today's civil (month, day) in the
  reference zone, and the current year otherwise, also on the same day whatever the encoded
  hour and the time of day. The decoder of \<^verbatim>\<open>cotationsScrapper\<close> on 2025-11-03 at
  12:00 EST: the daily identifier of that day, \<^verbatim>\<open>bitcoin-up-or-down-on-november-3\<close>,
  is given the year 2026, where the decoder of \<^verbatim>\<open>cotationsLogger\<close> gives 2025; at
  09:30 EST the hourly identifier of the running hour is given 2026 as well.
\<close>

theorem scrapper_same_day_next_year:
  "etParts 1762189200000
     = \<lparr>year = 2025, month = 11, day = 3, hour = 12, minute = 0, second = 0\<rparr>
   \<and> parseSlug_scrapper (utcHost 1762189200000) ''bitcoin-up-or-down-on-november-3'' BTC
       = Inr (Some \<lparr>timeframe = Daily, timestamp = Date 1793682000000\<rparr>)
   \<and> parseSlug (utcHost 1762189200000) ''bitcoin-up-or-down-on-november-3'' BTC
       = Inr (Some \<lparr>timeframe = Daily, timestamp = Date 1762146000000\<rparr>)
   \<and> new_Date_iso 2025 11 3 0 0 0 (- 18000000) = Date 1762146000000
   \<and> new_Date_iso 2026 11 3 0 0 0 (- 18000000) = Date 1793682000000
   \<and> etParts 1762180200000
       = \<lparr>year = 2025, month = 11, day = 3, hour = 9, minute = 30, second = 0\<rparr>
   \<and> parseSlug_scrapper (utcHost 1762180200000) ''bitcoin-up-or-down-november-3-9am-et'' BTC
       = Inr (Some \<lparr>timeframe = H1, timestamp = Date 1793714400000\<rparr>)
   \<and> parseSlug (utcHost 1762180200000) ''bitcoin-up-or-down-november-3-9am-et'' BTC
       = Inr (Some \<lparr>timeframe = H1, timestamp = Date 1762178400000\<rparr>)"
  by (intro conjI; code_simp)

text \<open>
  The decoder of \<^verbatim>\<open>cotationsLogger\<close> follows the rule: the decoded start is the date
  with the year so chosen, read at the offset probed for it.
\<close>

theorem text_year_inference:
  assumes unix: "js_match (unixPattern a) slug = None"
    and mon: "MONTHS mname = Num mo"
    and Y: "Y = (let today = etParts (clock e)
                 in if mo < month today \<or> (mo = month today \<and> d < day today)
                    then year today + 1 else year today)"
  shows "(js_match (dailyPattern a) slug = Some [nm, mname, ds] \<and> d = parseInt ds
            \<and> new_Date_local e Y mo d 0 = Date probe
          \<longrightarrow> parseSlug e slug a
                = Inr (Some \<lparr>timeframe = Daily,
                             timestamp = new_Date_iso Y mo d 0 0 0 (tzOffset probe)\<rparr>))
       \<and> (js_match (dailyPattern a) slug = None
            \<and> js_match (h1Pattern a) slug = Some [nm, mname, ds, hs, ampm] \<and> d = parseInt ds
            \<and> h = hour24 (parseInt hs) ampm \<and> new_Date_local e Y mo d h = Date probe
          \<longrightarrow> parseSlug e slug a
                = Inr (Some \<lparr>timeframe = H1,
                             timestamp = new_Date_iso Y mo d h 0 0 (tzOffset probe)\<rparr>))"
proof -
  have iy: "inferYear (etParts (clock e)) mo d = Y"
    using Y by (simp add: inferYear_def Let_def)
  show ?thesis
    using unix mon iy
    by (auto simp: parseSlug_def dailyBranch_def h1Branch_def textStart_def Let_def)
qed

theorem text_year_inference_witness:
  "parseSlug (utcHost 1762300000000) ''bitcoin-up-or-down-on-november-3'' BTC
     = Inr (Some \<lparr>timeframe = Daily,
                  timestamp = new_Date_iso 2026 11 3 0 0 0 (tzOffset 1793664000000)\<rparr>)
   \<and> parseSlug (utcHost 1762300000000) ''xrp-up-or-down-november-4-12pm-et'' XRP
     = Inr (Some \<lparr>timeframe = H1,
                  timestamp = new_Date_iso 2025 11 4 12 0 0 (tzOffset 1762257600000)\<rparr>)"
proof -
  let ?e = "utcHost 1762300000000"
  let ?D = "''bitcoin-up-or-down-on-november-3''"
  let ?H = "''xrp-up-or-down-november-4-12pm-et''"
  have d1: "js_match (unixPattern BTC) ?D = None" by code_simp
  have d2: "MONTHS ''november'' = Num 11" by code_simp
  have d3: "2026 = (let today = etParts (clock ?e)
                 in if 11 < month today \<or> (11 = month today \<and> 3 < day today)
                    then year today + 1 else year today)"
    by code_simp
  have d4: "js_match (dailyPattern BTC) ?D = Some [''bitcoin'', ''november'', ''3'']
            \<and> 3 = parseInt ''3'' \<and> new_Date_local ?e 2026 11 3 0 = Date 1793664000000"
    by (intro conjI; code_simp)
  have h1: "js_match (unixPattern XRP) ?H = None" by code_simp
  have h3: "2025 = (let today = etParts (clock ?e)
                 in if 11 < month today \<or> (11 = month today \<and> 4 < day today)
                    then year today + 1 else year today)"
    by code_simp
  have h4: "js_match (dailyPattern XRP) ?H = None
            \<and> js_match (h1Pattern XRP) ?H = Some [''xrp'', ''november'', ''4'', ''12'', ''pm'']
            \<and> 4 = parseInt ''4'' \<and> 12 = hour24 (parseInt ''12'') ''pm''
            \<and> new_Date_local ?e 2025 11 4 12 = Date 1762257600000"
    by (intro conjI; code_simp)
  note c1 = text_year_inference [OF d1 d2 d3, THEN conjunct1, THEN mp, OF d4]
  note c2 = text_year_inference [OF h1 d2 h3, THEN conjunct2, THEN mp, OF h4]
  show ?thesis
    by (intro conjI) (rule c1, rule c2)
qed

text \<open>
  C7. Two invocations of decode with the same identifier and asset return the same
  descriptor whatever the wall-clock time of each. The code reads the clock for the year of
  a text identifier. What holds: both decoders return the same descriptor for an identifier
  that matches the Unix format, whatever the clock and the host; for any identifier the
  decoder of \<^verbatim>\<open>cotationsLogger\<close> returns the same descriptor in the same host zone on
  the same civil date of the reference zone, and the decoder of \<^verbatim>\<open>cotationsScrapper\<close>
  in the same host zone at the same civil date and time; encode and containment called with
  an explicit instant do not depend on the clock or the host.
\<close>

theorem decode_determinism:
  "(js_match (unixPattern a) slug \<noteq> None
      \<longrightarrow> parseSlug e1 slug a = parseSlug e2 slug a
          \<and> parseSlug_scrapper e1 slug a = parseSlug_scrapper e2 slug a)
   \<and> (localTZA e1 = localTZA e2
        \<and> year (etParts (clock e1)) = year (etParts (clock e2))
        \<and> month (etParts (clock e1)) = month (etParts (clock e2))
        \<and> day (etParts (clock e1)) = day (etParts (clock e2))
      \<longrightarrow> parseSlug e1 slug a = parseSlug e2 slug a)
   \<and> (localTZA e1 = localTZA e2 \<and> etParts (clock e1) = etParts (clock e2)
      \<longrightarrow> parseSlug_scrapper e1 slug a = parseSlug_scrapper e2 slug a)
   \<and> generateExpectedSlug_at e1 a tf (Some now) = generateExpectedSlug_at e2 a tf (Some now)
   \<and> isActiveMarket_at e1 p a tf (Some now) = isActiveMarket_at e2 p a tf (Some now)"
proof (intro conjI impI)
  assume "js_match (unixPattern a) slug \<noteq> None"
  then obtain g where g: "js_match (unixPattern a) slug = Some g" by blast
  then show "parseSlug e1 slug a = parseSlug e2 slug a"
    by (simp add: parseSlug_def)
  from g show "parseSlug_scrapper e1 slug a = parseSlug_scrapper e2 slug a"
    by (simp add: parseSlug_scrapper_def)
next
  assume "localTZA e1 = localTZA e2
        \<and> year (etParts (clock e1)) = year (etParts (clock e2))
        \<and> month (etParts (clock e1)) = month (etParts (clock e2))
        \<and> day (etParts (clock e1)) = day (etParts (clock e2))"
  then show "parseSlug e1 slug a = parseSlug e2 slug a"
    by (intro parseSlug_same_civil_date) simp_all
next
  assume "localTZA e1 = localTZA e2 \<and> etParts (clock e1) = etParts (clock e2)"
  then show "parseSlug_scrapper e1 slug a = parseSlug_scrapper e2 slug a"
    by (intro parseSlug_scrapper_same_reading) simp_all
next
  show "generateExpectedSlug_at e1 a tf (Some now) = generateExpectedSlug_at e2 a tf (Some now)"
    by (simp add: generateExpectedSlug_at_def)
next
  show "isActiveMarket_at e1 p a tf (Some now) = isActiveMarket_at e2 p a tf (Some now)"
    by (simp add: isActiveMarket_at_def)
qed

theorem decode_determinism_witness:
  "(parseSlug (utcHost 0) ''btc-updown-15m-1762104600'' BTC
      = parseSlug (utcHost 1762300000000) ''btc-updown-15m-1762104600'' BTC
    \<and> parseSlug_scrapper (utcHost 0) ''btc-updown-15m-1762104600'' BTC
      = parseSlug_scrapper (utcHost 1762300000000) ''btc-updown-15m-1762104600'' BTC)
   \<and> parseSlug (utcHost 1762300000000) ''bitcoin-up-or-down-on-november-3'' BTC
      = parseSlug (utcHost 1762264800000) ''bitcoin-up-or-down-on-november-3'' BTC
   \<and> parseSlug_scrapper (utcHost 1762180200000) ''bitcoin-up-or-down-november-3-9am-et'' BTC
      = parseSlug_scrapper (utcHost 1762180200500) ''bitcoin-up-or-down-november-3-9am-et'' BTC"
proof -
  have u: "js_match (unixPattern BTC) ''btc-updown-15m-1762104600'' \<noteq> None"
    by code_simp
  have a0: "localTZA (utcHost 1762300000000) = localTZA (utcHost 1762264800000)"
    by (simp add: utcHost_def)
  have a1: "year (etParts (clock (utcHost 1762300000000)))
              = year (etParts (clock (utcHost 1762264800000)))
            \<and> month (etParts (clock (utcHost 1762300000000)))
              = month (etParts (clock (utcHost 1762264800000)))
            \<and> day (etParts (clock (utcHost 1762300000000)))
              = day (etParts (clock (utcHost 1762264800000)))"
    by (intro conjI; code_simp)
  have b0: "localTZA (utcHost 1762180200000) = localTZA (utcHost 1762180200500)"
    by (simp add: utcHost_def)
  have b1: "etParts (clock (utcHost 1762180200000)) = etParts (clock (utcHost 1762180200500))"
    by code_simp
  note c1 = decode_determinism [THEN conjunct1, THEN mp, OF u]
  note c2 = decode_determinism [THEN conjunct2, THEN conjunct1, THEN mp, OF conjI [OF a0 a1]]
  note c3 = decode_determinism [THEN conjunct2, THEN conjunct2, THEN conjunct1, THEN mp,
                                OF conjI [OF b0 b1]]
  show ?thesis
    by (rule conjI [OF c1 conjI [OF c2 c3]])
qed

theorem decode_depends_on_clock:
  "parseSlug (utcHost 1762000000000) ''bitcoin-up-or-down-on-november-3'' BTC
     = Inr (Some \<lparr>timeframe = Daily, timestamp = Date 1762146000000\<rparr>)
   \<and> parseSlug (utcHost 1762300000000) ''bitcoin-up-or-down-on-november-3'' BTC
     = Inr (Some \<lparr>timeframe = Daily, timestamp = Date 1793682000000\<rparr>)
   \<and> parseSlug (utcHost 1762000000000) ''bitcoin-up-or-down-on-november-3'' BTC
     \<noteq> parseSlug (utcHost 1762300000000) ''bitcoin-up-or-down-on-november-3'' BTC
   \<and> parseSlug_scrapper (utcHost 1762000000000) ''bitcoin-up-or-down-on-november-3'' BTC
     \<noteq> parseSlug_scrapper (utcHost 1762300000000) ''bitcoin-up-or-down-on-november-3'' BTC"
  by (intro conjI; code_simp)







end
